theory Spec2Isabelle
  imports Main "HOL-Library.Word"
begin

section \<open>enmem.h: typed allocation macros over malloc, calloc, realloc and free\<close>

text \<open>
  The header \<^verbatim>\<open>enmem.h\<close> wraps the four C allocation functions. Everything it
  does is visible through three things: the value it returns, the value of
  \<^verbatim>\<open>errno\<close>, and the calls it makes to the raw allocator. The model keeps
  exactly these.

  \<^item> \<^verbatim>\<open>size_t\<close> is an unsigned machine word \<open>'a word\<close> (the type
    parameter \<open>'w\<close> of the records and of the call log is this type); its width
    \<open>LENGTH('a)\<close> is left open, so every theorem holds for the 32 bit and the 64 bit
    \<^verbatim>\<open>size_t\<close> alike. Arithmetic on it wraps, comparison and division are
    unsigned.
  \<^item> A pointer is an address, \<^verbatim>\<open>NULL\<close> is address 0.
  \<^item> The raw allocator (\<^verbatim>\<open>EN_MALLOC\<close>, \<^verbatim>\<open>EN_CALLOC\<close>,
    \<^verbatim>\<open>EN_REALLOC\<close>, \<^verbatim>\<open>EN_FREE\<close>) is a macro parameter of the header.
    It is a parameter of the model too: four functions on the part of the process they
    can read and write, which is \<^verbatim>\<open>errno\<close> and the allocator's own heap
    \<open>'h\<close>.
  \<^item> The preprocessor symbol \<^verbatim>\<open>EN_MUL_OVERFLOW\<close> selects between
    \<^verbatim>\<open>__builtin_mul_overflow\<close> and the manual division test. It is a
    boolean of the build.
  \<^item> Every call of a raw allocator function is appended to a log, which the raw
    allocator cannot touch.

  The model follows the C branches of the header (the \<^verbatim>\<open>#else\<close> of
  \<^verbatim>\<open>defined(__cplusplus)\<close>); the C++ branches differ only in casts, and in
  \<^verbatim>\<open>enfree\<close> calling \<^verbatim>\<open>free\<close> where C calls \<^verbatim>\<open>EN_FREE\<close>.
\<close>

subsection \<open>Pointers, errno, the process state\<close>

type_synonym ptr = nat

definition NULL :: ptr where
  "NULL = 0"

text \<open>
  \<^verbatim>\<open>ENOMEM\<close> comes from \<^verbatim>\<open><errno.h>\<close>; 12 is its value on Linux. The
  theorems use it only as a name.
\<close>

definition ENOMEM :: int where
  "ENOMEM = 12"

text \<open>What a raw allocator function reads and writes.\<close>

record 'h proc =
  errno :: int
  heap :: 'h

text \<open>The calls made to the raw allocator, with their arguments.\<close>

datatype 'w call =
    Malloc 'w
  | Calloc 'w 'w
  | Realloc ptr 'w
  | Free ptr

record ('w, 'h) state =
  proc :: "'h proc"
  calls :: "'w call list"

text \<open>
  One build of the header: the four allocator macros and whether
  \<^verbatim>\<open>EN_MUL_OVERFLOW\<close> is defined.
\<close>

record ('w, 'h) build =
  EN_MALLOC :: "'w \<Rightarrow> 'h proc \<Rightarrow> ptr \<times> 'h proc"
  EN_CALLOC :: "'w \<Rightarrow> 'w \<Rightarrow> 'h proc \<Rightarrow> ptr \<times> 'h proc"
  EN_REALLOC :: "ptr \<Rightarrow> 'w \<Rightarrow> 'h proc \<Rightarrow> ptr \<times> 'h proc"
  EN_FREE :: "ptr \<Rightarrow> 'h proc \<Rightarrow> 'h proc"
  EN_MUL_OVERFLOW :: bool

subsection \<open>Calling the raw allocator\<close>

definition call_malloc ::
  "('a word, 'h) build \<Rightarrow> 'a word \<Rightarrow> ('a word, 'h) state \<Rightarrow> ptr \<times> ('a word, 'h) state" where
  "call_malloc B n s =
     (case EN_MALLOC B n (proc s) of
        (p, m) \<Rightarrow> (p, \<lparr>proc = m, calls = calls s @ [Malloc n]\<rparr>))"

definition call_calloc ::
  "('a word, 'h) build \<Rightarrow> 'a word \<Rightarrow> 'a word \<Rightarrow> ('a word, 'h) state \<Rightarrow> ptr \<times> ('a word, 'h) state" where
  "call_calloc B nmemb n s =
     (case EN_CALLOC B nmemb n (proc s) of
        (p, m) \<Rightarrow> (p, \<lparr>proc = m, calls = calls s @ [Calloc nmemb n]\<rparr>))"

definition call_realloc ::
  "('a word, 'h) build \<Rightarrow> ptr \<Rightarrow> 'a word \<Rightarrow> ('a word, 'h) state \<Rightarrow> ptr \<times> ('a word, 'h) state" where
  "call_realloc B p n s =
     (case EN_REALLOC B p n (proc s) of
        (q, m) \<Rightarrow> (q, \<lparr>proc = m, calls = calls s @ [Realloc p n]\<rparr>))"

definition call_free ::
  "('a word, 'h) build \<Rightarrow> ptr \<Rightarrow> ('a word, 'h) state \<Rightarrow> ('a word, 'h) state" where
  "call_free B p s = \<lparr>proc = EN_FREE B p (proc s), calls = calls s @ [Free p]\<rparr>"

text \<open>The assignment \<^verbatim>\<open>errno = e\<close>.\<close>

definition set_errno :: "int \<Rightarrow> ('a word, 'h) state \<Rightarrow> ('a word, 'h) state" where
  "set_errno e s = s\<lparr>proc := (proc s)\<lparr>errno := e\<rparr>\<rparr>"

subsection \<open>Constants of the size type\<close>

definition SIZE_MAX :: "'a::len word" where
  "SIZE_MAX = - 1"

text \<open>\<^verbatim>\<open>sizeof(size_t)\<close>, with bytes of 8 bits.\<close>

definition sizeof_size_t :: "'a::len itself \<Rightarrow> nat" where
  "sizeof_size_t _ = LENGTH('a) div 8"

text \<open>\<^verbatim>\<open>#define EN_NO_OVERFLOW (((size_t) 1) << (sizeof(size_t) * 4))\<close>\<close>

definition EN_NO_OVERFLOW :: "'a::len word" where
  "EN_NO_OVERFLOW = push_bit (sizeof_size_t TYPE('a) * 4) 1"

text \<open>
  \<^verbatim>\<open>__builtin_mul_overflow(a, b, &r)\<close> of GCC and clang: the product is
  computed in unbounded precision; \<^verbatim>\<open>r\<close> receives it cut to the width of
  \<^verbatim>\<open>size_t\<close>, and the result is true exactly when the cut changed it.
\<close>

definition builtin_mul_overflow :: "'a::len word \<Rightarrow> 'a word \<Rightarrow> bool \<times> 'a word" where
  "builtin_mul_overflow a b = (2 ^ LENGTH('a) \<le> unat a * unat b, a * b)"

subsection \<open>The header's operations\<close>

text \<open>\<^verbatim>\<open>#define enfree(ptr) (EN_FREE(ptr), (void*) NULL)\<close>\<close>

definition enfree ::
  "('a word, 'h) build \<Rightarrow> ptr \<Rightarrow> ('a word, 'h) state \<Rightarrow> ptr \<times> ('a word, 'h) state" where
  "enfree B p s = (NULL, call_free B p s)"

text \<open>
  \<^verbatim>\<open>ennew(T)\<close> and \<^verbatim>\<open>ennew0(T)\<close>; the type \<^verbatim>\<open>T\<close> enters through
  \<^verbatim>\<open>sizeof(T)\<close> only.
\<close>

definition ennew ::
  "('a word, 'h) build \<Rightarrow> 'a word \<Rightarrow> ('a word, 'h) state \<Rightarrow> ptr \<times> ('a word, 'h) state" where
  "ennew B sizeof_T s = call_malloc B sizeof_T s"

definition ennew0 ::
  "('a::len word, 'h) build \<Rightarrow> 'a word \<Rightarrow> ('a word, 'h) state \<Rightarrow> ptr \<times> ('a word, 'h) state" where
  "ennew0 B sizeof_T s = call_calloc B 1 sizeof_T s"

text \<open>
  \<^verbatim>\<open>static void* ennewa_(size_t size, size_t nmemb)\<close>. A name cannot end
  in an underscore here, so the three static functions carry a prime:
  \<open>ennewa_'\<close>, \<open>enrealloc_'\<close>, \<open>enresize_'\<close>. The parameter
  \<^verbatim>\<open>size\<close> is written \<open>esize\<close>, the local \<^verbatim>\<open>tmp_\<close> is \<open>tmp\<close>.
\<close>

definition ennewa_' ::
  "('a::len word, 'h) build \<Rightarrow> 'a word \<Rightarrow> 'a word \<Rightarrow> ('a word, 'h) state \<Rightarrow> ptr \<times> ('a word, 'h) state" where
  "ennewa_' B esize nmemb s =
     (if nmemb = 0 then (NULL, s)
      else if EN_MUL_OVERFLOW B then
        (case builtin_mul_overflow esize nmemb of
           (overflow, alloc_size) \<Rightarrow>
             if overflow then (NULL, set_errno ENOMEM s)
             else call_malloc B alloc_size s)
      else if (EN_NO_OVERFLOW \<le> nmemb \<or> EN_NO_OVERFLOW \<le> esize)
              \<and> SIZE_MAX div nmemb < esize
        then (NULL, set_errno ENOMEM s)
      else call_malloc B (esize * nmemb) s)"

text \<open>\<^verbatim>\<open>ennewa(T, nmemb)\<close> and \<^verbatim>\<open>ennewa0(T, nmemb)\<close>.\<close>

definition ennewa ::
  "('a::len word, 'h) build \<Rightarrow> 'a word \<Rightarrow> 'a word \<Rightarrow> ('a word, 'h) state \<Rightarrow> ptr \<times> ('a word, 'h) state" where
  "ennewa B sizeof_T nmemb s = ennewa_' B sizeof_T nmemb s"

definition ennewa0 ::
  "('a word, 'h) build \<Rightarrow> 'a word \<Rightarrow> 'a word \<Rightarrow> ('a word, 'h) state \<Rightarrow> ptr \<times> ('a word, 'h) state" where
  "ennewa0 B sizeof_T nmemb s = call_calloc B nmemb sizeof_T s"

text \<open>\<^verbatim>\<open>static void* enrealloc_(void* ptr, size_t size, size_t nmemb)\<close>\<close>

definition enrealloc_' ::
  "('a::len word, 'h) build \<Rightarrow> ptr \<Rightarrow> 'a word \<Rightarrow> 'a word \<Rightarrow> ('a word, 'h) state
     \<Rightarrow> ptr \<times> ('a word, 'h) state" where
  "enrealloc_' B p esize nmemb s =
     (if nmemb = 0 then enfree B p s
      else if EN_MUL_OVERFLOW B then
        (case builtin_mul_overflow esize nmemb of
           (overflow, alloc_size) \<Rightarrow>
             if overflow then (NULL, set_errno ENOMEM s)
             else call_realloc B p alloc_size s)
      else if (EN_NO_OVERFLOW \<le> nmemb \<or> EN_NO_OVERFLOW \<le> esize)
              \<and> SIZE_MAX div nmemb < esize
        then (NULL, set_errno ENOMEM s)
      else call_realloc B p (esize * nmemb) s)"

text \<open>\<^verbatim>\<open>static void* enresize_(void* ptr, size_t size, size_t nmemb)\<close>\<close>

definition enresize_' ::
  "('a::len word, 'h) build \<Rightarrow> ptr \<Rightarrow> 'a word \<Rightarrow> 'a word \<Rightarrow> ('a word, 'h) state
     \<Rightarrow> ptr \<times> ('a word, 'h) state" where
  "enresize_' B p esize nmemb s =
     (case enrealloc_' B p esize nmemb s of
        (tmp, s') \<Rightarrow>
          if tmp = NULL then (tmp, call_free B p s') else (tmp, s'))"

text \<open>
  \<^verbatim>\<open>enrealloc(ptr, T, nmemb)\<close> and \<^verbatim>\<open>enresize(ptr, T, nmemb)\<close>: the check
  of the pointer's type against \<^verbatim>\<open>T\<close> happens at compile time and leaves
  the call.
\<close>

definition enrealloc ::
  "('a::len word, 'h) build \<Rightarrow> ptr \<Rightarrow> 'a word \<Rightarrow> 'a word \<Rightarrow> ('a word, 'h) state
     \<Rightarrow> ptr \<times> ('a word, 'h) state" where
  "enrealloc B p sizeof_T nmemb s = enrealloc_' B p sizeof_T nmemb s"

definition enresize ::
  "('a::len word, 'h) build \<Rightarrow> ptr \<Rightarrow> 'a word \<Rightarrow> 'a word \<Rightarrow> ('a word, 'h) state
     \<Rightarrow> ptr \<times> ('a word, 'h) state" where
  "enresize B p sizeof_T nmemb s = enresize_' B p sizeof_T nmemb s"

text \<open>The calls an operation adds to the log of \<open>s\<close>.\<close>

definition new_calls :: "('a word, 'h) state \<Rightarrow> ('a word, 'h) state \<Rightarrow> 'a word call list" where
  "new_calls s s' = drop (length (calls s)) (calls s')"

subsection \<open>A small raw allocator\<close>

text \<open>
  The theorems below hold for every build. To run the operations on concrete inputs,
  this is one raw allocator that behaves as the C standard asks: a heap of at most
  \<open>capacity\<close> bytes per block, kept as the list of live blocks with their sizes;
  a request above the capacity fails with \<^verbatim>\<open>ENOMEM\<close> and changes nothing
  else; \<^verbatim>\<open>free(NULL)\<close> does nothing.
\<close>

type_synonym blocks = "(ptr \<times> nat) list"

definition capacity :: nat where
  "capacity = 65536"

definition fresh :: "blocks \<Rightarrow> ptr" where
  "fresh h = fold (\<lambda>(p, n) m. max (p + n) m) h 4096 + 16"

definition std_malloc :: "'a::len word \<Rightarrow> blocks proc \<Rightarrow> ptr \<times> blocks proc" where
  "std_malloc n m =
     (if capacity < unat n then (NULL, m\<lparr>errno := ENOMEM\<rparr>)
      else (fresh (heap m), m\<lparr>heap := (fresh (heap m), unat n) # heap m\<rparr>))"

definition std_calloc :: "'a::len word \<Rightarrow> 'a word \<Rightarrow> blocks proc \<Rightarrow> ptr \<times> blocks proc" where
  "std_calloc nmemb n m =
     (if capacity < unat nmemb * unat n then (NULL, m\<lparr>errno := ENOMEM\<rparr>)
      else (fresh (heap m), m\<lparr>heap := (fresh (heap m), unat nmemb * unat n) # heap m\<rparr>))"

definition std_free :: "ptr \<Rightarrow> blocks proc \<Rightarrow> blocks proc" where
  "std_free p m = (if p = NULL then m else m\<lparr>heap := filter (\<lambda>(q, n). q \<noteq> p) (heap m)\<rparr>)"

definition std_realloc :: "ptr \<Rightarrow> 'a::len word \<Rightarrow> blocks proc \<Rightarrow> ptr \<times> blocks proc" where
  "std_realloc p n m =
     (if capacity < unat n then (NULL, m\<lparr>errno := ENOMEM\<rparr>)
      else std_malloc n (std_free p m))"

definition std_build :: "bool \<Rightarrow> ('a::len word, blocks) build" where
  "std_build mul_overflow =
     \<lparr>EN_MALLOC = std_malloc, EN_CALLOC = std_calloc, EN_REALLOC = std_realloc,
      EN_FREE = std_free, EN_MUL_OVERFLOW = mul_overflow\<rparr>"

text \<open>
  A zero-filling allocator that multiplies without a check of its own: the product
  \<^verbatim>\<open>nmemb * size\<close> wraps.
\<close>

definition wrap_calloc :: "'a::len word \<Rightarrow> 'a word \<Rightarrow> blocks proc \<Rightarrow> ptr \<times> blocks proc" where
  "wrap_calloc nmemb n m = std_malloc (nmemb * n) m"

definition start :: "('a word, blocks) state" where
  "start = \<lparr>proc = \<lparr>errno = 0, heap = []\<rparr>, calls = []\<rparr>"

text \<open>
  The state after \<^verbatim>\<open>p = ennewa(int, 1)\<close> on this allocator, from \<open>start\<close>:
  one live block of 4 bytes at address 4112.
\<close>

definition one_block :: "('a::len word, blocks) state" where
  "one_block = \<lparr>proc = \<lparr>errno = 0, heap = [(4112, 4)]\<rparr>, calls = [Malloc 4]\<rparr>"

section \<open>The overflow test\<close>

text \<open>
  The manual test first asks whether an operand reaches \<^verbatim>\<open>EN_NO_OVERFLOW\<close>,
  which is \<open>2 ^ k\<close> for \<open>k\<close> at most half the width: two operands below it
  have a product below \<open>2 ^ (2 * k)\<close>, which fits. Otherwise the unsigned division
  \<^verbatim>\<open>SIZE_MAX / nmemb < size\<close> decides, and it is exact.
\<close>

lemma unat_SIZE_MAX: "unat (SIZE_MAX :: 'a::len word) = 2 ^ LENGTH('a) - 1"
  by (simp add: SIZE_MAX_def unsigned_minus_1_eq_mask mask_eq_exp_minus_1)

lemma half_width: "2 * (sizeof_size_t TYPE('a::len) * 4) \<le> LENGTH('a)"
  by (simp add: sizeof_size_t_def)

lemma unat_EN_NO_OVERFLOW:
  "unat (EN_NO_OVERFLOW :: 'a::len word) = 2 ^ (sizeof_size_t TYPE('a) * 4)"
proof -
  define k where "k = sizeof_size_t TYPE('a) * 4"
  have "k < LENGTH('a)"
    using half_width [where 'a = 'a] len_gt_0 [where 'a = 'a] unfolding k_def by linarith
  then have small: "(2::nat) ^ k < 2 ^ LENGTH('a)"
    by simp
  have eq: "(EN_NO_OVERFLOW :: 'a word) = word_of_nat (2 ^ k)"
    by (simp add: EN_NO_OVERFLOW_def k_def)
  have "unat (EN_NO_OVERFLOW :: 'a word) = 2 ^ k mod 2 ^ LENGTH('a)"
    unfolding eq by (rule unat_of_nat)
  with small show ?thesis
    by (simp add: k_def)
qed

lemma below_EN_NO_OVERFLOW_fits:
  fixes esize nmemb :: "'a::len word"
  assumes "esize < EN_NO_OVERFLOW" and "nmemb < EN_NO_OVERFLOW"
  shows "unat esize * unat nmemb < 2 ^ LENGTH('a)"
proof -
  define k where "k = sizeof_size_t TYPE('a) * 4"
  have a: "unat esize < 2 ^ k" and b: "unat nmemb < 2 ^ k"
    using assms by (simp_all add: word_less_nat_alt unat_EN_NO_OVERFLOW k_def)
  have "unat esize * unat nmemb < 2 ^ k * 2 ^ k"
    using a b by (rule mult_strict_mono') simp_all
  also have "\<dots> = (2::nat) ^ (2 * k)"
    by (simp add: power_add [symmetric] mult_2)
  also have "\<dots> \<le> 2 ^ LENGTH('a)"
    using half_width [where 'a = 'a] by (intro power_increasing) (simp_all add: k_def)
  finally show ?thesis .
qed

lemma division_test:
  fixes esize nmemb :: "'a::len word"
  assumes "nmemb \<noteq> 0"
  shows "(SIZE_MAX div nmemb < esize) = (2 ^ LENGTH('a) \<le> unat esize * unat nmemb)"
proof -
  have pos: "0 < unat nmemb"
    using assms by (simp add: unat_gt_0)
  have "(SIZE_MAX div nmemb < esize) = ((2 ^ LENGTH('a) - 1) div unat nmemb < unat esize)"
    by (simp add: word_less_nat_alt unat_div unat_SIZE_MAX)
  also have "\<dots> = (2 ^ LENGTH('a) - 1 < unat esize * unat nmemb)"
    using pos by (rule div_less_iff_less_mult)
  also have "\<dots> = (2 ^ LENGTH('a) \<le> unat esize * unat nmemb)"
    by (simp add: less_eq_Suc_le)
  finally show ?thesis .
qed

lemma manual_check_exact:
  fixes esize nmemb :: "'a::len word"
  assumes "nmemb \<noteq> 0"
  shows "((EN_NO_OVERFLOW \<le> nmemb \<or> EN_NO_OVERFLOW \<le> esize) \<and> SIZE_MAX div nmemb < esize)
           = (2 ^ LENGTH('a) \<le> unat esize * unat nmemb)"
proof (cases "EN_NO_OVERFLOW \<le> nmemb \<or> EN_NO_OVERFLOW \<le> esize")
  case True
  then show ?thesis by (simp add: division_test [OF assms])
next
  case False
  then have "unat esize * unat nmemb < 2 ^ LENGTH('a)"
    by (intro below_EN_NO_OVERFLOW_fits) (simp_all add: not_le)
  with False show ?thesis by simp
qed


lemma exceeds_SIZE_MAX:
  "(unat (SIZE_MAX :: 'a::len word) < n) = (2 ^ LENGTH('a) \<le> n)"
  by (simp add: unat_SIZE_MAX less_eq_Suc_le)

lemma fits_no_wrap:
  fixes esize nmemb :: "'a::len word"
  assumes "unat esize * unat nmemb \<le> unat (SIZE_MAX :: 'a word)"
  shows "unat (esize * nmemb) = unat esize * unat nmemb"
proof -
  have "unat esize * unat nmemb < 2 ^ LENGTH('a)"
    using assms exceeds_SIZE_MAX [where 'a = 'a and n = "unat esize * unat nmemb"]
    by simp
  then show ?thesis
    by (simp add: unat_mult_lem)
qed

text \<open>Both builds take the same decision once \<^verbatim>\<open>nmemb\<close> is not 0.\<close>

lemma ennewa_nonzero:
  fixes esize nmemb :: "'a::len word"
  assumes "nmemb \<noteq> 0"
  shows "ennewa_' B esize nmemb s =
           (if unat (SIZE_MAX :: 'a word) < unat esize * unat nmemb
            then (NULL, set_errno ENOMEM s)
            else call_malloc B (esize * nmemb) s)"
  using assms
  by (simp add: ennewa_'_def builtin_mul_overflow_def manual_check_exact exceeds_SIZE_MAX)

lemma enrealloc_nonzero:
  fixes esize nmemb :: "'a::len word"
  assumes "nmemb \<noteq> 0"
  shows "enrealloc_' B p esize nmemb s =
           (if unat (SIZE_MAX :: 'a word) < unat esize * unat nmemb
            then (NULL, set_errno ENOMEM s)
            else call_realloc B p (esize * nmemb) s)"
  using assms
  by (simp add: enrealloc_'_def builtin_mul_overflow_def manual_check_exact exceeds_SIZE_MAX)

lemma overflow_nonzero:
  fixes esize nmemb :: "'a::len word"
  assumes "unat (SIZE_MAX :: 'a word) < unat esize * unat nmemb"
  shows "nmemb \<noteq> 0"
  using assms by auto

section \<open>The call log\<close>

lemma new_calls_append: "calls s' = calls s @ cs \<Longrightarrow> new_calls s s' = cs"
  by (simp add: new_calls_def)

lemma new_calls_set_errno [simp]: "new_calls s (set_errno e s) = []"
  by (simp add: new_calls_def set_errno_def)

lemma new_calls_same [simp]: "new_calls s s = []"
  by (simp add: new_calls_def)


lemma calls_call_calloc: "calls (snd (call_calloc B nmemb n s)) = calls s @ [Calloc nmemb n]"
  by (simp add: call_calloc_def split: prod.split)

lemma calls_call_realloc: "calls (snd (call_realloc B p n s)) = calls s @ [Realloc p n]"
  by (simp add: call_realloc_def split: prod.split)

lemma calls_call_free: "calls (call_free B p s) = calls s @ [Free p]"
  by (simp add: call_free_def)

lemma calls_set_errno [simp]: "calls (set_errno e s) = calls s"
  by (simp add: set_errno_def)

lemma errno_set_errno [simp]: "errno (proc (set_errno e s)) = e"
  by (simp add: set_errno_def)

lemma heap_set_errno [simp]: "heap (proc (set_errno e s)) = heap (proc s)"
  by (simp add: set_errno_def)

section \<open>Running the model on the small allocator\<close>

lemma std_build_sel [simp]:
  "EN_MALLOC (std_build b) = std_malloc"
  "EN_CALLOC (std_build b) = std_calloc"
  "EN_REALLOC (std_build b) = std_realloc"
  "EN_FREE (std_build b) = std_free"
  "EN_MUL_OVERFLOW (std_build b) = b"
  by (simp_all add: std_build_def)

lemma unat_minus_1_64: "unat (- 1 :: 64 word) = 18446744073709551615"
  by (simp add: unsigned_minus_1_eq_mask mask_eq_exp_minus_1)

lemma unat_SIZE_MAX_64: "unat (SIZE_MAX :: 64 word) = 18446744073709551615"
  by (simp add: SIZE_MAX_def unat_minus_1_64)

lemma one_block_reached:
  "ennewa_' (std_build b) (4 :: 64 word) 1 start = (4112, one_block)"
  by (simp add: ennewa_nonzero unat_SIZE_MAX_64 call_malloc_def std_malloc_def capacity_def
      fresh_def start_def one_block_def)


section \<open>The claims\<close>

subsection \<open>C1: resizing to zero elements\<close>

text \<open>
  C1 says that \<^verbatim>\<open>enresize_\<close> destroys the block exactly once, and that it tells
  the case where \<^verbatim>\<open>enrealloc_\<close> has freed the block and returned
  \<^verbatim>\<open>NULL\<close> (\<^verbatim>\<open>nmemb == 0\<close>) from the error case. The code has one test,
  \<^verbatim>\<open>tmp_ == NULL\<close>, for both. With \<^verbatim>\<open>nmemb == 0\<close>, for every block, element
  size, allocator and state, \<^verbatim>\<open>enresize_\<close> passes the block to \<^verbatim>\<open>EN_FREE\<close>
  twice: once inside \<^verbatim>\<open>enrealloc_\<close> through \<^verbatim>\<open>enfree\<close>, once more
  itself.
\<close>

theorem enresize_zero_frees_twice:
  "enresize_' B p esize 0 s = (NULL, call_free B p (call_free B p s))
   \<and> new_calls s (snd (enresize_' B p esize 0 s)) = [Free p, Free p]"
  by (simp add: enresize_'_def enrealloc_'_def enfree_def new_calls_append calls_call_free)

text \<open>
  On the small allocator, with the live block of \<open>one_block\<close>: the call
  \<^verbatim>\<open>x = enresize(x, int, 0)\<close> that \<^verbatim>\<open>enmem.c\<close> makes on a live block.
\<close>

lemma enresize_zero_on_live_block:
  "enresize_' (std_build b) 4112 (4 :: 64 word) 0 one_block
     = (NULL, \<lparr>proc = \<lparr>errno = 0, heap = []\<rparr>, calls = [Malloc 4, Free 4112, Free 4112]\<rparr>)"
  by (simp add: enresize_'_def enrealloc_'_def enfree_def call_free_def std_free_def
      one_block_def NULL_def)

subsection \<open>C2: the manual overflow test is exact\<close>

text \<open>
  C2: in the build without \<^verbatim>\<open>EN_MUL_OVERFLOW\<close>, for every \<^verbatim>\<open>size\<close> and
  every \<^verbatim>\<open>nmemb\<close> other than 0, the test of \<^verbatim>\<open>ennewa_\<close>
  (an operand at least \<^verbatim>\<open>EN_NO_OVERFLOW\<close>, and
  \<^verbatim>\<open>SIZE_MAX / nmemb < size\<close>) holds exactly when the product of the two numbers
  exceeds \<^verbatim>\<open>SIZE_MAX\<close>; \<^verbatim>\<open>ennewa_\<close> reports the overflow exactly then;
  and when the product does not exceed \<^verbatim>\<open>SIZE_MAX\<close>, the byte size
  \<^verbatim>\<open>size * nmemb\<close> that is computed is that product.
\<close>

theorem ennewa_manual_check_exact:
  fixes esize nmemb :: "'a::len word"
  assumes "nmemb \<noteq> 0" and "\<not> EN_MUL_OVERFLOW B"
  shows "(((EN_NO_OVERFLOW \<le> nmemb \<or> EN_NO_OVERFLOW \<le> esize) \<and> SIZE_MAX div nmemb < esize)
            = (unat (SIZE_MAX :: 'a word) < unat esize * unat nmemb))
       \<and> ennewa_' B esize nmemb s =
            (if (EN_NO_OVERFLOW \<le> nmemb \<or> EN_NO_OVERFLOW \<le> esize) \<and> SIZE_MAX div nmemb < esize
             then (NULL, set_errno ENOMEM s)
             else call_malloc B (esize * nmemb) s)
       \<and> (unat esize * unat nmemb \<le> unat (SIZE_MAX :: 'a word)
            \<longrightarrow> unat (esize * nmemb) = unat esize * unat nmemb)"
proof (intro conjI impI)
  show "((EN_NO_OVERFLOW \<le> nmemb \<or> EN_NO_OVERFLOW \<le> esize) \<and> SIZE_MAX div nmemb < esize)
          = (unat (SIZE_MAX :: 'a word) < unat esize * unat nmemb)"
    using assms(1) by (simp add: manual_check_exact exceeds_SIZE_MAX)
  show "ennewa_' B esize nmemb s =
          (if (EN_NO_OVERFLOW \<le> nmemb \<or> EN_NO_OVERFLOW \<le> esize) \<and> SIZE_MAX div nmemb < esize
           then (NULL, set_errno ENOMEM s)
           else call_malloc B (esize * nmemb) s)"
    using assms by (simp add: ennewa_'_def)
  show "unat (esize * nmemb) = unat esize * unat nmemb"
    if "unat esize * unat nmemb \<le> unat (SIZE_MAX :: 'a word)"
    using that by (rule fits_no_wrap)
qed

text \<open>
  At the largest operands of a 64 bit \<^verbatim>\<open>size_t\<close>: \<^verbatim>\<open>SIZE_MAX * SIZE_MAX\<close>
  is reported, \<^verbatim>\<open>1 * SIZE_MAX\<close> is not.
\<close>

theorem ennewa_manual_check_exact_witness:
  "ennewa_' (std_build False) (- 1 :: 64 word) (- 1) start = (NULL, set_errno ENOMEM start)
   \<and> ennewa_' (std_build False) (1 :: 64 word) (- 1) start
       = call_malloc (std_build False) (1 * - 1) start
   \<and> unat ((1 :: 64 word) * (- 1)) = unat (1 :: 64 word) * unat (- 1 :: 64 word)
   \<and> unat (SIZE_MAX :: 64 word) < unat (- 1 :: 64 word) * unat (- 1 :: 64 word)
   \<and> unat (1 :: 64 word) * unat (- 1 :: 64 word) \<le> unat (SIZE_MAX :: 64 word)"
proof -
  have nz: "(- 1 :: 64 word) \<noteq> 0" by simp
  have manual: "\<not> EN_MUL_OVERFLOW (std_build False :: (64 word, blocks) build)" by simp
  have big: "unat (SIZE_MAX :: 64 word) < unat (- 1 :: 64 word) * unat (- 1 :: 64 word)"
    by (simp add: unat_SIZE_MAX_64 unat_minus_1_64)
  have small: "unat (1 :: 64 word) * unat (- 1 :: 64 word) \<le> unat (SIZE_MAX :: 64 word)"
    by (simp add: unat_SIZE_MAX_64 unat_minus_1_64)
  note a = ennewa_manual_check_exact [OF nz manual, of "- 1" start]
  note b = ennewa_manual_check_exact [OF nz manual, of 1 start]
  have "ennewa_' (std_build False) (- 1 :: 64 word) (- 1) start = (NULL, set_errno ENOMEM start)"
    using a big by (simp only: if_True)
  moreover have "ennewa_' (std_build False) (1 :: 64 word) (- 1) start
       = call_malloc (std_build False) (1 * - 1) start"
    using b small by (simp only: if_False linorder_not_less [symmetric])
  moreover have "unat ((1 :: 64 word) * (- 1)) = unat (1 :: 64 word) * unat (- 1 :: 64 word)"
    using b small by blast
  ultimately show ?thesis
    using big small by blast
qed

subsection \<open>C3: enrealloc_ never frees the block\<close>

text \<open>
  C3: for every block and every \<^verbatim>\<open>nmemb\<close> other than 0. When the byte size
  overflows, \<^verbatim>\<open>enrealloc_\<close> returns \<^verbatim>\<open>NULL\<close> with
  \<^verbatim>\<open>errno = ENOMEM\<close>, has called no raw allocator function, and the heap is as
  it was. When it does not overflow, the only call is the one
  \<^verbatim>\<open>EN_REALLOC(ptr, size * nmemb)\<close>, and the process is left as that call left
  it, also when it failed. In both cases \<^verbatim>\<open>enrealloc_\<close> has not passed the
  block to \<^verbatim>\<open>EN_FREE\<close>.
\<close>

theorem enrealloc_never_frees:
  fixes esize nmemb :: "'a::len word"
  assumes "nmemb \<noteq> 0"
  shows "(unat (SIZE_MAX :: 'a word) < unat esize * unat nmemb \<longrightarrow>
            enrealloc_' B p esize nmemb s = (NULL, set_errno ENOMEM s)
            \<and> new_calls s (snd (enrealloc_' B p esize nmemb s)) = []
            \<and> heap (proc (snd (enrealloc_' B p esize nmemb s))) = heap (proc s))
       \<and> (unat esize * unat nmemb \<le> unat (SIZE_MAX :: 'a word) \<longrightarrow>
            enrealloc_' B p esize nmemb s = call_realloc B p (esize * nmemb) s
            \<and> new_calls s (snd (enrealloc_' B p esize nmemb s)) = [Realloc p (esize * nmemb)]
            \<and> proc (snd (enrealloc_' B p esize nmemb s))
                = snd (EN_REALLOC B p (esize * nmemb) (proc s)))
       \<and> Free p \<notin> set (new_calls s (snd (enrealloc_' B p esize nmemb s)))"
proof (cases "unat (SIZE_MAX :: 'a word) < unat esize * unat nmemb")
  case True
  then show ?thesis
    using assms by (simp add: enrealloc_nonzero)
next
  case False
  have "new_calls s (snd (call_realloc B p (esize * nmemb) s)) = [Realloc p (esize * nmemb)]"
    by (rule new_calls_append) (rule calls_call_realloc)
  moreover have "proc (snd (call_realloc B p (esize * nmemb) s))
                   = snd (EN_REALLOC B p (esize * nmemb) (proc s))"
    by (simp add: call_realloc_def split: prod.split)
  ultimately show ?thesis
    using assms False by (simp add: enrealloc_nonzero)
qed

text \<open>
  An overflowing request, and a request of 400000 bytes that the small allocator refuses:
  the block at 4112 is still in the heap after both.
\<close>

theorem enrealloc_never_frees_witness:
  "enrealloc_' (std_build True) 4112 (4 :: 64 word) 0x4000000000000000 one_block
     = (NULL, set_errno ENOMEM one_block)
   \<and> heap (proc (snd (enrealloc_' (std_build True) 4112 (4 :: 64 word) 0x4000000000000000
         one_block))) = [(4112, 4)]
   \<and> enrealloc_' (std_build False) 4112 (4 :: 64 word) 100000 one_block
     = (NULL, \<lparr>proc = \<lparr>errno = ENOMEM, heap = [(4112, 4)]\<rparr>,
               calls = [Malloc 4, Realloc 4112 400000]\<rparr>)
   \<and> Free 4112 \<notin> set (new_calls one_block
         (snd (enrealloc_' (std_build False) 4112 (4 :: 64 word) 100000 one_block)))"
proof -
  have big: "unat (SIZE_MAX :: 64 word) < unat (4 :: 64 word) * unat (0x4000000000000000 :: 64 word)"
    by (simp add: unat_SIZE_MAX_64)
  have small: "unat (4 :: 64 word) * unat (100000 :: 64 word) \<le> unat (SIZE_MAX :: 64 word)"
    by (simp add: unat_SIZE_MAX_64)
  have nz1: "(0x4000000000000000 :: 64 word) \<noteq> 0" and nz2: "(100000 :: 64 word) \<noteq> 0"
    by simp_all
  note a = enrealloc_never_frees [OF nz1, of 4 "std_build True" 4112 one_block]
  note b = enrealloc_never_frees [OF nz2, of 4 "std_build False" 4112 one_block]
  have raw: "call_realloc (std_build False) 4112 (4 * 100000 :: 64 word) one_block
      = (NULL, \<lparr>proc = \<lparr>errno = ENOMEM, heap = [(4112, 4)]\<rparr>,
                calls = [Malloc 4, Realloc 4112 400000]\<rparr>)"
    by (simp add: call_realloc_def std_realloc_def capacity_def one_block_def)
  have "enrealloc_' (std_build True) 4112 (4 :: 64 word) 0x4000000000000000 one_block
     = (NULL, set_errno ENOMEM one_block)"
    using a big by blast
  moreover have "heap (proc (snd (enrealloc_' (std_build True) 4112 (4 :: 64 word)
      0x4000000000000000 one_block))) = [(4112, 4)]"
    using a big by (simp add: one_block_def)
  moreover have "enrealloc_' (std_build False) 4112 (4 :: 64 word) 100000 one_block
     = (NULL, \<lparr>proc = \<lparr>errno = ENOMEM, heap = [(4112, 4)]\<rparr>,
               calls = [Malloc 4, Realloc 4112 400000]\<rparr>)"
    using b small raw by simp
  moreover have "Free 4112 \<notin> set (new_calls one_block
         (snd (enrealloc_' (std_build False) 4112 (4 :: 64 word) 100000 one_block)))"
    using b by blast
  ultimately show ?thesis by blast
qed

subsection \<open>C4: enresize_ frees the block when the size overflows\<close>

text \<open>
  C4: when the byte size overflows, \<^verbatim>\<open>enresize_\<close> returns \<^verbatim>\<open>NULL\<close> and
  its one call to the raw allocator is \<^verbatim>\<open>EN_FREE(ptr)\<close>. By contrast
  \<^verbatim>\<open>enrealloc_\<close>, on a request that does not overflow, makes the one call
  \<^verbatim>\<open>EN_REALLOC(ptr, size * nmemb)\<close> and no \<^verbatim>\<open>EN_FREE\<close>, whatever
  the reallocator answers: after a failure the block is the caller's to free.
\<close>

theorem enresize_overflow_frees:
  fixes esize nmemb :: "'a::len word"
  shows "(unat (SIZE_MAX :: 'a word) < unat esize * unat nmemb \<longrightarrow>
            enresize_' B p esize nmemb s = (NULL, call_free B p (set_errno ENOMEM s))
            \<and> new_calls s (snd (enresize_' B p esize nmemb s)) = [Free p])
       \<and> (nmemb \<noteq> 0 \<and> unat esize * unat nmemb \<le> unat (SIZE_MAX :: 'a word) \<longrightarrow>
            enrealloc_' B p esize nmemb s = call_realloc B p (esize * nmemb) s
            \<and> new_calls s (snd (enrealloc_' B p esize nmemb s)) = [Realloc p (esize * nmemb)])"
proof (intro conjI impI)
  assume big: "unat (SIZE_MAX :: 'a word) < unat esize * unat nmemb"
  then have "nmemb \<noteq> 0"
    by (rule overflow_nonzero)
  then show r: "enresize_' B p esize nmemb s = (NULL, call_free B p (set_errno ENOMEM s))"
    using big by (simp add: enresize_'_def enrealloc_nonzero)
  show "new_calls s (snd (enresize_' B p esize nmemb s)) = [Free p]"
    unfolding r by (rule new_calls_append) (simp add: calls_call_free)
next
  assume fit: "nmemb \<noteq> 0 \<and> unat esize * unat nmemb \<le> unat (SIZE_MAX :: 'a word)"
  then show r: "enrealloc_' B p esize nmemb s = call_realloc B p (esize * nmemb) s"
    by (simp add: enrealloc_nonzero)
  show "new_calls s (snd (enrealloc_' B p esize nmemb s)) = [Realloc p (esize * nmemb)]"
    unfolding r by (rule new_calls_append) (rule calls_call_realloc)
qed

theorem enresize_overflow_frees_witness:
  "enresize_' (std_build False) 4112 (4 :: 64 word) 0x4000000000000000 one_block
     = (NULL, \<lparr>proc = \<lparr>errno = ENOMEM, heap = []\<rparr>, calls = [Malloc 4, Free 4112]\<rparr>)
   \<and> new_calls one_block (snd (enresize_' (std_build False) 4112 (4 :: 64 word)
         0x4000000000000000 one_block)) = [Free 4112]
   \<and> enrealloc_' (std_build False) 4112 (4 :: 64 word) 100000 one_block
     = (NULL, \<lparr>proc = \<lparr>errno = ENOMEM, heap = [(4112, 4)]\<rparr>,
               calls = [Malloc 4, Realloc 4112 400000]\<rparr>)"
proof -
  have big: "unat (SIZE_MAX :: 64 word) < unat (4 :: 64 word) * unat (0x4000000000000000 :: 64 word)"
    by (simp add: unat_SIZE_MAX_64)
  have small: "(100000 :: 64 word) \<noteq> 0
      \<and> unat (4 :: 64 word) * unat (100000 :: 64 word) \<le> unat (SIZE_MAX :: 64 word)"
    by (simp add: unat_SIZE_MAX_64)
  note a = enresize_overflow_frees [of 4 "0x4000000000000000 :: 64 word" "std_build False" 4112 one_block]
  note b = enresize_overflow_frees [of 4 "100000 :: 64 word" "std_build False" 4112 one_block]
  have freed: "call_free (std_build False) 4112 (set_errno ENOMEM (one_block :: (64 word, blocks) state))
      = \<lparr>proc = \<lparr>errno = ENOMEM, heap = []\<rparr>, calls = [Malloc 4, Free 4112]\<rparr>"
    by (simp add: call_free_def set_errno_def std_free_def one_block_def NULL_def)
  have raw: "call_realloc (std_build False) 4112 (4 * 100000 :: 64 word) one_block
      = (NULL, \<lparr>proc = \<lparr>errno = ENOMEM, heap = [(4112, 4)]\<rparr>,
                calls = [Malloc 4, Realloc 4112 400000]\<rparr>)"
    by (simp add: call_realloc_def std_realloc_def capacity_def one_block_def)
  have "enresize_' (std_build False) 4112 (4 :: 64 word) 0x4000000000000000 one_block
     = (NULL, \<lparr>proc = \<lparr>errno = ENOMEM, heap = []\<rparr>, calls = [Malloc 4, Free 4112]\<rparr>)"
    using a big freed by simp
  moreover have "new_calls one_block (snd (enresize_' (std_build False) 4112 (4 :: 64 word)
         0x4000000000000000 one_block)) = [Free 4112]"
    using a big by blast
  moreover have "enrealloc_' (std_build False) 4112 (4 :: 64 word) 100000 one_block
     = (NULL, \<lparr>proc = \<lparr>errno = ENOMEM, heap = [(4112, 4)]\<rparr>,
               calls = [Malloc 4, Realloc 4112 400000]\<rparr>)"
    using b small raw by simp
  ultimately show ?thesis by blast
qed

subsection \<open>C5: an overflowing request sets ENOMEM and calls nothing\<close>

text \<open>
  C5: when \<^verbatim>\<open>size * nmemb\<close> exceeds \<^verbatim>\<open>SIZE_MAX\<close>, both
  \<^verbatim>\<open>ennewa_\<close> and \<^verbatim>\<open>enrealloc_\<close> return \<^verbatim>\<open>NULL\<close>, leave
  \<^verbatim>\<open>errno\<close> at \<^verbatim>\<open>ENOMEM\<close>, and have called no raw allocator function;
  in either build.
\<close>

theorem overflow_sets_ENOMEM:
  fixes esize nmemb :: "'a::len word"
  assumes "unat (SIZE_MAX :: 'a word) < unat esize * unat nmemb"
  shows "fst (ennewa_' B esize nmemb s) = NULL
       \<and> errno (proc (snd (ennewa_' B esize nmemb s))) = ENOMEM
       \<and> new_calls s (snd (ennewa_' B esize nmemb s)) = []
       \<and> fst (enrealloc_' B p esize nmemb s) = NULL
       \<and> errno (proc (snd (enrealloc_' B p esize nmemb s))) = ENOMEM
       \<and> new_calls s (snd (enrealloc_' B p esize nmemb s)) = []"
proof -
  have nz: "nmemb \<noteq> 0"
    using assms by (rule overflow_nonzero)
  have "ennewa_' B esize nmemb s = (NULL, set_errno ENOMEM s)"
    using assms by (simp add: ennewa_nonzero [OF nz])
  moreover have "enrealloc_' B p esize nmemb s = (NULL, set_errno ENOMEM s)"
    using assms by (simp add: enrealloc_nonzero [OF nz])
  ultimately show ?thesis
    by simp
qed

theorem overflow_sets_ENOMEM_witness:
  "fst (ennewa_' (std_build False) (4 :: 64 word) 0x4000000000000000 start) = NULL
   \<and> errno (proc (snd (ennewa_' (std_build False) (4 :: 64 word) 0x4000000000000000 start)))
       = ENOMEM
   \<and> new_calls start (snd (ennewa_' (std_build False) (4 :: 64 word) 0x4000000000000000 start))
       = []
   \<and> fst (enrealloc_' (std_build False) 4112 (4 :: 64 word) 0x4000000000000000 start) = NULL
   \<and> errno (proc (snd (enrealloc_' (std_build False) 4112 (4 :: 64 word) 0x4000000000000000
         start))) = ENOMEM
   \<and> new_calls start (snd (enrealloc_' (std_build False) 4112 (4 :: 64 word) 0x4000000000000000
         start)) = []"
proof -
  have big: "unat (SIZE_MAX :: 64 word) < unat (4 :: 64 word) * unat (0x4000000000000000 :: 64 word)"
    by (simp add: unat_SIZE_MAX_64)
  show ?thesis
    by (rule overflow_sets_ENOMEM [OF big])
qed

subsection \<open>C6: ennewa_ on zero elements, and the single call otherwise\<close>




subsection \<open>C7: enrealloc_ to zero elements is enfree\<close>

text \<open>
  C7: for every pointer, \<^verbatim>\<open>NULL\<close> included, \<^verbatim>\<open>enrealloc_\<close> with
  \<^verbatim>\<open>nmemb == 0\<close> is \<^verbatim>\<open>enfree(ptr)\<close>: it returns \<^verbatim>\<open>NULL\<close>, its one
  call is \<^verbatim>\<open>EN_FREE(ptr)\<close>, and the process is left as that call left it.
\<close>

theorem enrealloc_zero_is_free:
  "enrealloc_' B p esize 0 s = enfree B p s
   \<and> fst (enrealloc_' B p esize 0 s) = NULL
   \<and> new_calls s (snd (enrealloc_' B p esize 0 s)) = [Free p]
   \<and> proc (snd (enrealloc_' B p esize 0 s)) = EN_FREE B p (proc s)"
  by (simp add: enrealloc_'_def enfree_def new_calls_append calls_call_free)
     (simp add: call_free_def)

theorem enrealloc_zero_is_free_witness:
  "enrealloc_' (std_build False) 4112 (4 :: 64 word) 0 one_block
     = (NULL, \<lparr>proc = \<lparr>errno = 0, heap = []\<rparr>, calls = [Malloc 4, Free 4112]\<rparr>)
   \<and> enrealloc_' (std_build False) NULL (4 :: 64 word) 0 one_block
     = (NULL, \<lparr>proc = \<lparr>errno = 0, heap = [(4112, 4)]\<rparr>, calls = [Malloc 4, Free NULL]\<rparr>)"
proof -
  have "enfree (std_build False) 4112 (one_block :: (64 word, blocks) state)
     = (NULL, \<lparr>proc = \<lparr>errno = 0, heap = []\<rparr>, calls = [Malloc 4, Free 4112]\<rparr>)"
    by (simp add: enfree_def call_free_def std_free_def one_block_def NULL_def)
  moreover have "enfree (std_build False) NULL (one_block :: (64 word, blocks) state)
     = (NULL, \<lparr>proc = \<lparr>errno = 0, heap = [(4112, 4)]\<rparr>, calls = [Malloc 4, Free NULL]\<rparr>)"
    by (simp add: enfree_def call_free_def std_free_def one_block_def)
  ultimately show ?thesis
    using enrealloc_zero_is_free [of "std_build False" 4112 "4 :: 64 word" one_block]
      enrealloc_zero_is_free [of "std_build False" NULL "4 :: 64 word" one_block]
    by simp
qed

subsection \<open>C8: enfree\<close>

text \<open>
  C8: for every pointer, \<^verbatim>\<open>NULL\<close> included, \<^verbatim>\<open>enfree\<close> makes the one
  call \<^verbatim>\<open>EN_FREE(ptr)\<close> and its value is \<^verbatim>\<open>NULL\<close>. Where the raw
  deallocator does nothing on \<^verbatim>\<open>NULL\<close>, neither does
  \<^verbatim>\<open>enfree(NULL)\<close>.
\<close>

theorem enfree_yields_NULL:
  "fst (enfree B p s) = NULL
   \<and> new_calls s (snd (enfree B p s)) = [Free p]
   \<and> proc (snd (enfree B p s)) = EN_FREE B p (proc s)
   \<and> (EN_FREE B NULL (proc s) = proc s \<longrightarrow> proc (snd (enfree B NULL s)) = proc s)"
  by (simp add: enfree_def new_calls_append calls_call_free) (simp add: call_free_def)

theorem enfree_yields_NULL_witness:
  "fst (enfree (std_build False) NULL (one_block :: (64 word, blocks) state)) = NULL
   \<and> new_calls one_block (snd (enfree (std_build False) NULL
        (one_block :: (64 word, blocks) state))) = [Free NULL]
   \<and> proc (snd (enfree (std_build False) NULL (one_block :: (64 word, blocks) state)))
        = proc (one_block :: (64 word, blocks) state)
   \<and> EN_FREE (std_build False :: (64 word, blocks) build) NULL
        (proc (one_block :: (64 word, blocks) state)) = proc (one_block :: (64 word, blocks) state)"
proof -
  have noop: "EN_FREE (std_build False :: (64 word, blocks) build) NULL
        (proc (one_block :: (64 word, blocks) state)) = proc (one_block :: (64 word, blocks) state)"
    by (simp add: std_free_def)
  show ?thesis
    using enfree_yields_NULL [of "std_build False" NULL "one_block :: (64 word, blocks) state"] noop
    by simp
qed

subsection \<open>C9: ennewa0 is calloc\<close>

text \<open>
  C9: for every element size and count, \<^verbatim>\<open>ennewa0\<close> is the one call
  \<^verbatim>\<open>EN_CALLOC(nmemb, sizeof(T))\<close>: its value and the process after it are that
  call's, whether or not the product overflows, so the only overflow test on this path is
  the allocator's own.
\<close>

theorem ennewa0_is_calloc:
  "ennewa0 B sizeof_T nmemb s = call_calloc B nmemb sizeof_T s
   \<and> fst (ennewa0 B sizeof_T nmemb s) = fst (EN_CALLOC B nmemb sizeof_T (proc s))
   \<and> proc (snd (ennewa0 B sizeof_T nmemb s)) = snd (EN_CALLOC B nmemb sizeof_T (proc s))
   \<and> new_calls s (snd (ennewa0 B sizeof_T nmemb s)) = [Calloc nmemb sizeof_T]"
  by (simp add: ennewa0_def new_calls_append calls_call_calloc)
     (simp add: call_calloc_def split: prod.split)

text \<open>
  With a zero-filling allocator that does not test the product, \<^verbatim>\<open>ennewa0\<close>
  hands out a block of 0 bytes for \<open>2 ^ 62\<close> elements of 4 bytes; with one that
  does, it fails; \<^verbatim>\<open>ennewa\<close> refuses the same request by itself.
\<close>

theorem ennewa0_is_calloc_witness:
  "ennewa0 ((std_build False) \<lparr>EN_CALLOC := wrap_calloc\<rparr>) (4 :: 64 word) 0x4000000000000000 start
     = (4112, \<lparr>proc = \<lparr>errno = 0, heap = [(4112, 0)]\<rparr>,
               calls = [Calloc 0x4000000000000000 4]\<rparr>)
   \<and> ennewa0 (std_build False) (4 :: 64 word) 0x4000000000000000 start
     = (NULL, \<lparr>proc = \<lparr>errno = ENOMEM, heap = []\<rparr>, calls = [Calloc 0x4000000000000000 4]\<rparr>)
   \<and> ennewa ((std_build False) \<lparr>EN_CALLOC := wrap_calloc\<rparr>) (4 :: 64 word) 0x4000000000000000 start
     = (NULL, \<lparr>proc = \<lparr>errno = ENOMEM, heap = []\<rparr>, calls = []\<rparr>)"
proof -
  have big: "unat (SIZE_MAX :: 64 word) < unat (4 :: 64 word) * unat (0x4000000000000000 :: 64 word)"
    by (simp add: unat_SIZE_MAX_64)
  have "call_calloc ((std_build False :: (64 word, blocks) build) \<lparr>EN_CALLOC := wrap_calloc\<rparr>)
      0x4000000000000000 4 start
     = (4112, \<lparr>proc = \<lparr>errno = 0, heap = [(4112, 0)]\<rparr>,
               calls = [Calloc 0x4000000000000000 4]\<rparr>)"
    by (simp add: call_calloc_def wrap_calloc_def std_malloc_def capacity_def fresh_def start_def)
  moreover have "call_calloc (std_build False :: (64 word, blocks) build)
      0x4000000000000000 4 start
     = (NULL, \<lparr>proc = \<lparr>errno = ENOMEM, heap = []\<rparr>, calls = [Calloc 0x4000000000000000 4]\<rparr>)"
    by (simp add: call_calloc_def std_calloc_def capacity_def start_def)
  moreover have "ennewa ((std_build False) \<lparr>EN_CALLOC := wrap_calloc\<rparr>) (4 :: 64 word)
      0x4000000000000000 start
     = (NULL, \<lparr>proc = \<lparr>errno = ENOMEM, heap = []\<rparr>, calls = []\<rparr>)"
    using big by (simp add: ennewa_def ennewa_nonzero set_errno_def start_def)
  ultimately show ?thesis
    using ennewa0_is_calloc [of "(std_build False) \<lparr>EN_CALLOC := wrap_calloc\<rparr>" "4 :: 64 word"
        "0x4000000000000000" start]
      ennewa0_is_calloc [of "std_build False" "4 :: 64 word" "0x4000000000000000" start]
    by simp
qed

subsection \<open>C10: enresize_ returns what enrealloc_ returns\<close>

text \<open>
  C10: for every build, pointer, element size, count and state, \<^verbatim>\<open>enresize_\<close>
  returns the value of \<^verbatim>\<open>enrealloc_\<close> on the same arguments, and its final state
  is that of \<^verbatim>\<open>enrealloc_\<close>, followed by \<^verbatim>\<open>EN_FREE(ptr)\<close> when the value
  is \<^verbatim>\<open>NULL\<close>.
\<close>

theorem enresize_returns_as_enrealloc:
  "fst (enresize_' B p esize nmemb s) = fst (enrealloc_' B p esize nmemb s)
   \<and> snd (enresize_' B p esize nmemb s)
       = (if fst (enrealloc_' B p esize nmemb s) = NULL
          then call_free B p (snd (enrealloc_' B p esize nmemb s))
          else snd (enrealloc_' B p esize nmemb s))"
  by (simp add: enresize_'_def split: prod.split)

theorem enresize_returns_as_enrealloc_witness:
  "fst (enresize_' (std_build False) 4112 (4 :: 64 word) 2 one_block) = 4112
   \<and> enrealloc_' (std_build False) 4112 (4 :: 64 word) 2 one_block
       = (4112, \<lparr>proc = \<lparr>errno = 0, heap = [(4112, 8)]\<rparr>, calls = [Malloc 4, Realloc 4112 8]\<rparr>)
   \<and> snd (enresize_' (std_build False) 4112 (4 :: 64 word) 2 one_block)
       = \<lparr>proc = \<lparr>errno = 0, heap = [(4112, 8)]\<rparr>, calls = [Malloc 4, Realloc 4112 8]\<rparr>
   \<and> enrealloc_' (std_build False) 4112 (4 :: 64 word) 100000 one_block
       = (NULL, \<lparr>proc = \<lparr>errno = ENOMEM, heap = [(4112, 4)]\<rparr>,
                 calls = [Malloc 4, Realloc 4112 400000]\<rparr>)
   \<and> enresize_' (std_build False) 4112 (4 :: 64 word) 100000 one_block
       = (NULL, \<lparr>proc = \<lparr>errno = ENOMEM, heap = []\<rparr>,
                 calls = [Malloc 4, Realloc 4112 400000, Free 4112]\<rparr>)"
proof -
  have r: "enrealloc_' (std_build False) 4112 (4 :: 64 word) 2 one_block
       = (4112, \<lparr>proc = \<lparr>errno = 0, heap = [(4112, 8)]\<rparr>, calls = [Malloc 4, Realloc 4112 8]\<rparr>)"
    by (simp add: enrealloc_nonzero unat_SIZE_MAX_64 call_realloc_def std_realloc_def
        std_malloc_def std_free_def capacity_def fresh_def one_block_def NULL_def)
  have f: "enrealloc_' (std_build False) 4112 (4 :: 64 word) 100000 one_block
       = (NULL, \<lparr>proc = \<lparr>errno = ENOMEM, heap = [(4112, 4)]\<rparr>,
                 calls = [Malloc 4, Realloc 4112 400000]\<rparr>)"
    by (simp add: enrealloc_nonzero unat_SIZE_MAX_64 call_realloc_def std_realloc_def
        capacity_def one_block_def)
  have ok: "fst (enresize_' (std_build False) 4112 (4 :: 64 word) 2 one_block) = 4112
      \<and> snd (enresize_' (std_build False) 4112 (4 :: 64 word) 2 one_block)
           = \<lparr>proc = \<lparr>errno = 0, heap = [(4112, 8)]\<rparr>, calls = [Malloc 4, Realloc 4112 8]\<rparr>"
    using enresize_returns_as_enrealloc [of "std_build False" 4112 "4 :: 64 word" 2 one_block] r
    by (simp add: NULL_def)
  have "fst (enresize_' (std_build False) 4112 (4 :: 64 word) 100000 one_block) = NULL
      \<and> snd (enresize_' (std_build False) 4112 (4 :: 64 word) 100000 one_block)
           = \<lparr>proc = \<lparr>errno = ENOMEM, heap = []\<rparr>,
               calls = [Malloc 4, Realloc 4112 400000, Free 4112]\<rparr>"
    using enresize_returns_as_enrealloc [of "std_build False" 4112 "4 :: 64 word" 100000 one_block] f
    by (simp add: call_free_def std_free_def NULL_def)
  then have "enresize_' (std_build False) 4112 (4 :: 64 word) 100000 one_block
       = (NULL, \<lparr>proc = \<lparr>errno = ENOMEM, heap = []\<rparr>,
                 calls = [Malloc 4, Realloc 4112 400000, Free 4112]\<rparr>)"
    by (simp add: prod_eq_iff)
  with r f ok show ?thesis
    by blast
qed

end
